theory Spec2Isabelle
  imports Main
begin

section \<open>Python strings\<close>

text \<open>
  Python \<open>str\<close> values are modelled as \<open>string\<close> (a list of 8-bit characters).
  A character outside ASCII is written as its UTF-8 bytes; \<open>lower\<close>, \<open>upper\<close>,
  \<open>strip\<close> and \<open>title\<close> act on the ASCII letters and the ASCII white space only.
\<close>

definition lower_char :: "char \<Rightarrow> char" where
  "lower_char c =
     (case map_of (zip ''ABCDEFGHIJKLMNOPQRSTUVWXYZ'' ''abcdefghijklmnopqrstuvwxyz'') c of
        Some d \<Rightarrow> d | None \<Rightarrow> c)"

definition upper_char :: "char \<Rightarrow> char" where
  "upper_char c =
     (case map_of (zip ''abcdefghijklmnopqrstuvwxyz'' ''ABCDEFGHIJKLMNOPQRSTUVWXYZ'') c of
        Some d \<Rightarrow> d | None \<Rightarrow> c)"

definition lower :: "string \<Rightarrow> string" where
  "lower s = map lower_char s"

definition upper :: "string \<Rightarrow> string" where
  "upper s = map upper_char s"

definition is_space :: "char \<Rightarrow> bool" where
  "is_space c = (c \<in> set [CHR 0x09, CHR 0x0A, CHR 0x0B, CHR 0x0C, CHR 0x0D,
                            CHR 0x1C, CHR 0x1D, CHR 0x1E, CHR 0x1F, CHR 0x20])"

definition strip :: "string \<Rightarrow> string" where
  "strip s = rev (dropWhile is_space (rev (dropWhile is_space s)))"

definition is_alpha :: "char \<Rightarrow> bool" where
  "is_alpha c = (c \<in> set ''abcdefghijklmnopqrstuvwxyzABCDEFGHIJKLMNOPQRSTUVWXYZ'')"

text \<open>\<open>str.title()\<close>: a letter that follows a letter is lowered, any other letter is raised.\<close>

fun title_from :: "bool \<Rightarrow> string \<Rightarrow> string" where
  "title_from prev [] = []"
| "title_from prev (c # cs) =
     (if is_alpha c then (if prev then lower_char c else upper_char c) # title_from True cs
      else c # title_from False cs)"

definition title :: "string \<Rightarrow> string" where
  "title s = title_from False s"

text \<open>\<open>sub in s\<close> on strings: \<open>sub\<close> occurs in \<open>s\<close> as a contiguous block.\<close>

fun starts_with :: "string \<Rightarrow> string \<Rightarrow> bool" where
  "starts_with [] s = True"
| "starts_with (p # ps) [] = False"
| "starts_with (p # ps) (c # cs) = (p = c \<and> starts_with ps cs)"

fun contains :: "string \<Rightarrow> string \<Rightarrow> bool" where
  "contains sub [] = (sub = [])"
| "contains sub (c # cs) = (starts_with sub (c # cs) \<or> contains sub cs)"


section \<open>Python values stored in the ledgers\<close>

text \<open>
  The entries of \<open>workflow_history\<close>, \<open>tool_outputs\<close> and \<open>tool_usage\<close> are dictionaries
  built from literals; they are kept as values of a small universe. A dictionary is an
  association list, read with \<open>pget\<close>.
\<close>

datatype pv =
    PNone
  | PStr string
  | PInt int
  | PBool bool
  | PList "pv list"
  | PDict "(string \<times> pv) list"

text \<open>
  \<open>d[k] = v\<close> keeps the position of a key that is there and puts a new key last;
  \<open>d.pop(k, None)\<close> removes the key.
\<close>

fun dict_set :: "'k \<Rightarrow> 'v \<Rightarrow> ('k \<times> 'v) list \<Rightarrow> ('k \<times> 'v) list" where
  "dict_set k v [] = [(k, v)]"
| "dict_set k v (p # ps) = (if fst p = k then (k, v) # ps else p # dict_set k v ps)"


fun pget :: "pv \<Rightarrow> string \<Rightarrow> pv option" where
  "pget (PDict kvs) k = map_of kvs k"
| "pget v k = None"

datatype message = HumanMessage string | AIMessage string | SystemMessage string

fun content :: "message \<Rightarrow> string" where
  "content (HumanMessage t) = t"
| "content (AIMessage t) = t"
| "content (SystemMessage t) = t"

fun is_AIMessage :: "message \<Rightarrow> bool" where
  "is_AIMessage (AIMessage t) = True"
| "is_AIMessage m = False"

section \<open>The conversation state\<close>

text \<open>
  \<open>AgentState\<close> is a dictionary: a key may be missing, and the steps test for that
  (\<open>"agent_stack" not in state\<close>, \<open>state.get("error")\<close>). Every key is a field of option
  type, \<open>None\<close> for a missing key. The keys \<open>agent_outcome\<close>, \<open>error\<close>, \<open>last_tool\<close>
  and \<open>tool_result\<close> are only read through \<open>state.get\<close>, which does not tell a missing key
  from a stored \<open>None\<close>: for them \<open>None\<close> stands for both. The key \<open>next\<close> is the field
  \<open>next'\<close>.

  The entry of \<open>tool_outputs\<close> under \<open>router_llm\<close> is written by the router only, as a
  dictionary of statistics; every other entry is a list of call records. The first is the
  field \<open>router_llm\<close>, the others are the dictionary \<open>tool_lists\<close>.
\<close>

record router_stats =
  calls :: "pv list"
  total_uses :: int
  last_used :: "string option"

record tool_outputs_dict =
  router_llm :: "router_stats option"
  tool_lists :: "(string \<times> pv list) list"

record payload =
  response :: string
  source_agent_response :: string
  agent_workflow :: "pv list"
  pl_conversation_active :: bool
  pl_needs_followup :: bool
  pl_error :: "string option"

record state =
  input :: "string option"
  messages :: "message list option"
  agent_outcome :: "(string \<times> string) list option"
  next' :: "string option"
  error :: "string option"
  tool_outputs :: "tool_outputs_dict option"
  tool_usage :: "pv list option"
  last_tool :: "string option"
  tool_result :: "string option"
  workflow_history :: "pv list option"
  current_agent :: "string option"
  agent_stack :: "string list option"
  conversation_active :: "bool option"
  needs_followup :: "bool option"
  is_complete :: "bool option"
  task_list :: "string list option"
  personality_config :: "pv option"
  personality_output :: "payload option"
  knowledge_context :: "(string \<times> pv) list option"
  support_context :: "(string \<times> pv) list option"

text \<open>Truth value of \<open>state.get(key)\<close> for a text, a flag and a dictionary.\<close>

fun truthy_str :: "string option \<Rightarrow> bool" where
  "truthy_str None = False"
| "truthy_str (Some t) = (t \<noteq> [])"

fun truthy_flag :: "bool option \<Rightarrow> bool" where
  "truthy_flag None = False"
| "truthy_flag (Some b) = b"

fun truthy_dict :: "('k \<times> 'v) list option \<Rightarrow> bool" where
  "truthy_dict None = False"
| "truthy_dict (Some kvs) = (kvs \<noteq> [])"

text \<open>\<open>state.get(key, default)\<close>.\<close>

fun get_default :: "'a \<Rightarrow> 'a option \<Rightarrow> 'a" where
  "get_default d None = d"
| "get_default d (Some v) = v"

text \<open>
  \<open>END\<close> is imported from the graph library, where it is the node name \<open>__end__\<close>.
  \<open>datetime.now().strftime(...)\<close> reads the clock: the \<open>k\<close>-th reading inside one call
  is \<open>now k\<close>, a parameter of every step that writes time stamps.
\<close>

definition END :: string where
  "END = ''__end__''"

type_synonym clock = "nat \<Rightarrow> string"

section \<open>The action tools (tools.py)\<close>

definition empty_tool_outputs :: tool_outputs_dict where
  "empty_tool_outputs = \<lparr>router_llm = None, tool_lists = []\<rparr>"

text \<open>\<open>state.setdefault("tool_outputs", {}).setdefault(name, []).append(entry)\<close>\<close>

definition append_tool_output :: "string \<Rightarrow> pv \<Rightarrow> state \<Rightarrow> state" where
  "append_tool_output name entry s =
     (let outs = get_default empty_tool_outputs (tool_outputs s);
          old = get_default [] (map_of (tool_lists outs) name)
      in s\<lparr>tool_outputs :=
             Some (outs\<lparr>tool_lists := dict_set name (old @ [entry]) (tool_lists outs)\<rparr>)\<rparr>)"

text \<open>\<open>state.setdefault("tool_usage", []).append(entry)\<close>\<close>

definition append_tool_usage :: "pv \<Rightarrow> state \<Rightarrow> state" where
  "append_tool_usage entry s =
     s\<lparr>tool_usage := Some (get_default [] (tool_usage s) @ [entry])\<rparr>"

definition ticket_response :: "string \<Rightarrow> string \<Rightarrow> string" where
  "ticket_response ticket_id issue_description =
     [CHR 0x0A] @ ''    '' @ [CHR 0xE2, CHR 0x9C, CHR 0x85] @
     '' Support Ticket Created Successfully!'' @ [CHR 0x0A] @
     ''    Ticket ID: '' @ ticket_id @ [CHR 0x0A] @
     ''    Issue Description: '' @ issue_description @ [CHR 0x0A] @
     ''    Expected Response Time:'' @ [CHR 0x0A] @
     ''    - Low: 24-48 hrs | Normal: 12-24 hrs | High: 4-8 hrs | Urgent: 1-2 hrs'' @
     [CHR 0x0A] @ ''    ''"

text \<open>
  \<open>create_support_ticket\<close>. \<open>uuid4\<close> is the text of the identifier that \<open>uuid.uuid4()\<close>
  draws. The tool returns its text; the state, when one is passed, is updated in place, so
  the model returns it as well.
\<close>

definition create_support_ticket ::
  "string \<Rightarrow> clock \<Rightarrow> string \<Rightarrow> string \<Rightarrow> string \<Rightarrow> state option \<Rightarrow> string \<times> state option" where
  "create_support_ticket uuid4 now issue_description priority0 category0 st =
     (let ticket_id = ''TICK-'' @ upper (take 8 uuid4);
          priority = (if lower priority0 \<notin> set [''low'', ''normal'', ''high'', ''urgent'']
                      then ''normal'' else priority0);
          category = (if lower category0 \<notin>
                           set [''billing'', ''technical'', ''account'', ''general'', ''refund'']
                      then ''general'' else category0);
          ticket_data = PDict [(''ticket_id'', PStr ticket_id),
                               (''issue_description'', PStr issue_description)];
          response = ticket_response ticket_id issue_description
      in (response,
          case st of
            None \<Rightarrow> None
          | Some s \<Rightarrow>
              Some ((append_tool_usage
                       (PDict [(''tool'', PStr ''create_support_ticket''),
                               (''input'', ticket_data),
                               (''output'', PStr response),
                               (''timestamp'', PStr (now 1))])
                       (append_tool_output ''create_support_ticket''
                          (PDict [(''input'', PDict [(''issue_description'', PStr issue_description),
                                                     (''priority'', PStr priority),
                                                     (''category'', PStr category)]),
                                  (''output'', PStr response),
                                  (''timestamp'', PStr (now 0))]) s))
                    \<lparr>last_tool := Some ''create_support_ticket'',
                     tool_result := Some response\<rparr>)))"

subsection \<open>Dates and times of the scheduling tool\<close>

text \<open>
  \<open>datetime.strptime(text, "%Y-%m-%d")\<close> accepts four digits, a dash, a month written
  \<open>1\<close>..\<open>9\<close>, \<open>01\<close>..\<open>12\<close>, a dash and a day written \<open>1\<close>..\<open>9\<close>, \<open>01\<close>..\<open>31\<close> or with a
  leading blank, nothing before or after, and the date must exist in the calendar;
  \<open>"%H:%M"\<close> accepts an hour \<open>0\<close>..\<open>23\<close> and a minute \<open>0\<close>..\<open>59\<close> of one or two digits.
  Everything else raises \<open>ValueError\<close>, which is \<open>None\<close> here.
\<close>

definition digit_of :: "char \<Rightarrow> nat option" where
  "digit_of c = map_of (zip ''0123456789'' [0, 1, 2, 3, 4, 5, 6, 7, 8, 9]) c"

fun num12 :: "string \<Rightarrow> nat option" where
  "num12 [a] = digit_of a"
| "num12 [a, b] =
     (case (digit_of a, digit_of b) of
        (Some x, Some y) \<Rightarrow> Some (10 * x + y)
      | _ \<Rightarrow> None)"
| "num12 t = None"

fun num4 :: "string \<Rightarrow> nat option" where
  "num4 [a, b, c, d] =
     (case (digit_of a, digit_of b, digit_of c, digit_of d) of
        (Some w, Some x, Some y, Some z) \<Rightarrow> Some (1000 * w + 100 * x + 10 * y + z)
      | _ \<Rightarrow> None)"
| "num4 t = None"

definition is_leap :: "nat \<Rightarrow> bool" where
  "is_leap y = (y mod 4 = 0 \<and> (y mod 100 \<noteq> 0 \<or> y mod 400 = 0))"

definition days_in_month :: "nat \<Rightarrow> nat \<Rightarrow> nat" where
  "days_in_month y m =
     (if m = 2 then (if is_leap y then 29 else 28)
      else if m \<in> set [4, 6, 9, 11] then 30 else 31)"

record date =
  year :: nat
  month :: nat
  day :: nat

record time_of_day =
  hour :: nat
  minute :: nat

fun day_text :: "string \<Rightarrow> nat option" where
  "day_text [b, a] = (if b = CHR '' '' then digit_of a else num12 [b, a])"
| "day_text t = num12 t"

definition strptime_date :: "string \<Rightarrow> date option" where
  "strptime_date t =
     (case (num4 (take 4 t), drop 4 t) of
        (Some y, dash1 # r1) \<Rightarrow>
          (case (num12 (takeWhile (\<lambda>c. c \<noteq> CHR ''-'') r1),
                 dropWhile (\<lambda>c. c \<noteq> CHR ''-'') r1) of
             (Some m, dash2 # r2) \<Rightarrow>
               (case day_text r2 of
                  Some d \<Rightarrow>
                    if dash1 = CHR ''-'' \<and> 1 \<le> y \<and> 1 \<le> m \<and> m \<le> 12 \<and>
                       1 \<le> d \<and> d \<le> days_in_month y m
                    then Some \<lparr>year = y, month = m, day = d\<rparr> else None
                | None \<Rightarrow> None)
           | _ \<Rightarrow> None)
      | _ \<Rightarrow> None)"

definition strptime_time :: "string \<Rightarrow> time_of_day option" where
  "strptime_time t =
     (case (num12 (takeWhile (\<lambda>c. c \<noteq> CHR '':'') t),
            dropWhile (\<lambda>c. c \<noteq> CHR '':'') t) of
        (Some h, colon # r) \<Rightarrow>
          (case num12 r of
             Some m \<Rightarrow> if h \<le> 23 \<and> m \<le> 59 then Some \<lparr>hour = h, minute = m\<rparr> else None
           | None \<Rightarrow> None)
      | _ \<Rightarrow> None)"

text \<open>\<open>date.weekday()\<close>: Monday is 0, Sunday is 6; computed from the proleptic ordinal.\<close>

definition days_before_month :: "nat \<Rightarrow> nat \<Rightarrow> nat" where
  "days_before_month y m =
     [0, 31, 59, 90, 120, 151, 181, 212, 243, 273, 304, 334] ! (m - 1) +
     (if 2 < m \<and> is_leap y then 1 else 0)"

definition toordinal :: "date \<Rightarrow> nat" where
  "toordinal d =
     (let y1 = year d - 1
      in y1 * 365 + y1 div 4 - y1 div 100 + y1 div 400 + days_before_month (year d) (month d) + day d)"

definition weekday :: "date \<Rightarrow> nat" where
  "weekday d = (toordinal d + 6) mod 7"

definition digit_char :: "nat \<Rightarrow> char" where
  "digit_char n = ''0123456789'' ! (n mod 10)"

definition pad2 :: "nat \<Rightarrow> string" where
  "pad2 n = [digit_char (n div 10), digit_char n]"

definition pad4 :: "nat \<Rightarrow> string" where
  "pad4 n = [digit_char (n div 1000), digit_char (n div 100), digit_char (n div 10), digit_char n]"

definition day_name :: "nat \<Rightarrow> string" where
  "day_name w = [''Monday'', ''Tuesday'', ''Wednesday'', ''Thursday'', ''Friday'',
                 ''Saturday'', ''Sunday''] ! (w mod 7)"

definition month_name :: "nat \<Rightarrow> string" where
  "month_name m = [''January'', ''February'', ''March'', ''April'', ''May'', ''June'', ''July'',
                   ''August'', ''September'', ''October'', ''November'', ''December''] ! ((m - 1) mod 12)"

text \<open>\<open>strftime("%A, %B %d, %Y")\<close> and \<open>strftime("%I:%M %p")\<close>.\<close>

definition format_date :: "date \<Rightarrow> string" where
  "format_date d =
     day_name (weekday d) @ '', '' @ month_name (month d) @ '' '' @ pad2 (day d) @ '', '' @
     pad4 (year d)"

definition format_time :: "time_of_day \<Rightarrow> string" where
  "format_time t =
     pad2 (if hour t mod 12 = 0 then 12 else hour t mod 12) @ '':'' @ pad2 (minute t) @ '' '' @
     (if hour t < 12 then ''AM'' else ''PM'')"

subsection \<open>The scheduling tool\<close>

definition err_business_hours :: string where
  "err_business_hours =
     [CHR 0xE2, CHR 0x9D, CHR 0x8C] @ '' Error: Time must be between 9:00 AM and 5:00 PM.''"

definition err_weekday :: string where
  "err_weekday = [CHR 0xE2, CHR 0x9D, CHR 0x8C] @ '' Error: Appointments only on weekdays.''"

definition err_format :: string where
  "err_format =
     [CHR 0xE2, CHR 0x9D, CHR 0x8C] @
     '' Error: Date format (YYYY-MM-DD) and time format (HH:MM) required.''"

text \<open>
  The \<open>try\<close> block of \<open>schedule_support_call\<close>: both texts are parsed, then the hour and
  the day of the week are checked. \<open>Inl\<close> is the error text the tool returns.
\<close>

definition check_slot :: "string \<Rightarrow> string \<Rightarrow> string + date \<times> time_of_day" where
  "check_slot preferred_date preferred_time =
     (case strptime_date preferred_date of
        None \<Rightarrow> Inl err_format
      | Some appointment_date \<Rightarrow>
          (case strptime_time preferred_time of
             None \<Rightarrow> Inl err_format
           | Some appointment_time \<Rightarrow>
               if hour appointment_time < 9 \<or> 17 \<le> hour appointment_time
               then Inl err_business_hours
               else if 5 \<le> weekday appointment_date then Inl err_weekday
               else Inr (appointment_date, appointment_time)))"

definition call_response :: "string \<Rightarrow> string \<Rightarrow> string \<Rightarrow> string \<Rightarrow> string \<Rightarrow> string" where
  "call_response appointment_id formatted_date formatted_time call_type issue_summary =
     [CHR 0x0A] @ ''    '' @ [CHR 0xF0, CHR 0x9F, CHR 0x93, CHR 0x9E] @
     '' Support Call Scheduled Successfully!'' @ [CHR 0x0A] @
     ''    Appointment ID: '' @ appointment_id @ [CHR 0x0A] @
     ''    Scheduled: '' @ formatted_date @ '' at '' @ formatted_time @ [CHR 0x0A] @
     ''    Call Type: '' @ title call_type @ [CHR 0x0A] @
     ''    Issue: '' @ issue_summary @ [CHR 0x0A] @
     ''    Note: Calls occur only during business hours (9 AM - 5 PM, Mon-Fri).'' @
     [CHR 0x0A] @ ''    ''"

text \<open>
  \<open>schedule_support_call\<close> has the parameters \<open>issue_summary\<close>, \<open>call_type\<close> and
  \<open>state\<close>; the date and the time are assigned in its body.
\<close>

definition schedule_support_call ::
  "string \<Rightarrow> clock \<Rightarrow> string \<Rightarrow> string \<Rightarrow> state option \<Rightarrow> string \<times> state option" where
  "schedule_support_call uuid4 now issue_summary call_type0 st =
     (let preferred_date = ''2025-05-26'';
          preferred_time = ''14:30'';
          appointment_id = ''APT-'' @ upper (take 8 uuid4);
          call_type = (if lower call_type0 \<notin>
                            set [''technical'', ''billing'', ''consultation'', ''general'']
                       then ''general'' else call_type0)
      in case check_slot preferred_date preferred_time of
           Inl err \<Rightarrow> (err, st)
         | Inr (appointment_date, appointment_time) \<Rightarrow>
             (let formatted_date = format_date appointment_date;
                  formatted_time = format_time appointment_time;
                  appointment_data =
                    PDict [(''appointment_id'', PStr appointment_id),
                           (''date'', PStr preferred_date),
                           (''time'', PStr preferred_time),
                           (''formatted_datetime'', PStr (formatted_date @ '' at '' @ formatted_time)),
                           (''issue_summary'', PStr issue_summary),
                           (''call_type'', PStr (lower call_type)),
                           (''status'', PStr ''scheduled''),
                           (''created_at'', PStr (now 0))];
                  response = call_response appointment_id formatted_date formatted_time
                               call_type issue_summary
              in (response,
                  case st of
                    None \<Rightarrow> None
                  | Some s \<Rightarrow>
                      Some ((append_tool_usage
                               (PDict [(''tool'', PStr ''schedule_support_call''),
                                       (''input'', appointment_data),
                                       (''output'', PStr response),
                                       (''timestamp'', PStr (now 2))])
                               (append_tool_output ''schedule_support_call''
                                  (PDict [(''input'', PDict [(''preferred_date'', PStr preferred_date),
                                                             (''preferred_time'', PStr preferred_time),
                                                             (''issue_summary'', PStr issue_summary),
                                                             (''call_type'', PStr call_type)]),
                                          (''output'', PStr response),
                                          (''timestamp'', PStr (now 1))]) s))
                            \<lparr>last_tool := Some ''schedule_support_call'',
                             tool_result := Some response\<rparr>))))"

section \<open>The Classifier step (agents/router.py)\<close>

text \<open>
  The completion service takes the transcript and the input and answers with a text
  (\<open>Inr\<close>) or raises (\<open>Inl\<close>, the text of the exception). Every step returns, next to
  the state, the list of requests it sent to the service.
\<close>

type_synonym completion = "message list \<Rightarrow> string \<Rightarrow> string + string"

type_synonym requests = "(message list \<times> string) list"

definition router_model :: string where
  "router_model = ''meta-llama/llama-4-maverick-17b-128e-instruct''"

text \<open>The text of \<open>KeyError(k)\<close>.\<close>

definition key_error :: "string \<Rightarrow> string" where
  "key_error k = [CHR 0x27] @ k @ [CHR 0x27]"

text \<open>Lines 64 to 92: the step enters itself in the stack and fills in the missing keys.\<close>

definition router_init :: "clock \<Rightarrow> state \<Rightarrow> state" where
  "router_init now s =
     (let s1 = s\<lparr>current_agent := Some ''router''\<rparr>;
          s2 = s1\<lparr>agent_stack := Some (get_default [] (agent_stack s1) @ [''router''])\<rparr>;
          s3 = s2\<lparr>conversation_active := Some (get_default True (conversation_active s2)),
                  needs_followup := Some (get_default True (needs_followup s2)),
                  task_list := Some (get_default [] (task_list s2)),
                  workflow_history := Some (get_default [] (workflow_history s2)),
                  tool_outputs := Some (get_default empty_tool_outputs (tool_outputs s2))\<rparr>
      in s3\<lparr>workflow_history :=
              Some (get_default [] (workflow_history s3) @
                    [PDict [(''agent_name'', PStr ''router''),
                            (''action'', PStr ''start_routing''),
                            (''input'', PStr (get_default [] (input s3))),
                            (''tool_calls'',
                               PDict [(''router_llm'',
                                         PDict [(''calls'', PList []),
                                                (''model'', PStr router_model),
                                                (''status'', PStr ''initialized'')])]),
                            (''timestamp'', PStr (now 0))]])\<rparr>)"

text \<open>The \<open>except\<close> branch, lines 191 to 195.\<close>

definition router_except :: "string \<Rightarrow> state \<Rightarrow> state" where
  "router_except e s = s\<lparr>next' := Some ''support'', error := Some e\<rparr>"

text \<open>Lines 173 to 189: the decision is normalised, checked and stored.\<close>

definition router_finish :: "string \<Rightarrow> state \<Rightarrow> state" where
  "router_finish next_agent s =
     (let n1 = lower (strip next_agent);
          n2 = (if n1 = ''end'' then END else n1);
          n3 = (if n2 \<notin> set [''knowledge'', ''support'', END] then ''support'' else n2);
          n4 = (if n3 = END \<and> get_default True (conversation_active s) \<and>
                   get_default True (needs_followup s)
                then ''support'' else n3)
      in s\<lparr>next' := Some n4\<rparr>)"

text \<open>Lines 158 to 171: a worker's outcome, the follow-up flag and the task list.\<close>

definition router_outcome :: "string \<Rightarrow> state \<Rightarrow> state" where
  "router_outcome next_agent s =
     (if truthy_dict (agent_outcome s) then
        (if truthy_flag (needs_followup s) then
           router_finish (get_default ''support'' (next' s)) s
         else
           (case task_list s of
              None \<Rightarrow> router_except (key_error ''task_list'') s
            | Some [] \<Rightarrow>
                router_finish END
                  (s\<lparr>conversation_active := Some False, needs_followup := Some False\<rparr>)
            | Some (next_task # rest) \<Rightarrow>
                router_finish ''support'' (s\<lparr>task_list := Some rest, input := Some next_task\<rparr>)))
      else if \<not> truthy_flag (conversation_active s) then router_finish END s
      else router_finish next_agent s)"

text \<open>Lines 107 to 156: the reply is cleaned, entered in the ledger and mapped.\<close>

definition router_reply :: "clock \<Rightarrow> string \<Rightarrow> string \<Rightarrow> state \<Rightarrow> state" where
  "router_reply now inp reply s =
     (let next_agent = strip (lower reply)
      in case tool_outputs s of
           None \<Rightarrow> router_except (key_error ''tool_outputs'') s
         | Some outs \<Rightarrow>
             (let stats0 = get_default \<lparr>calls = [], total_uses = 0, last_used = None\<rparr>
                             (router_llm outs);
                  stats = \<lparr>calls = calls stats0 @
                                     [PDict [(''input'', PStr inp),
                                             (''output'', PStr next_agent),
                                             (''model'', PStr router_model),
                                             (''status'', PStr ''success''),
                                             (''timestamp'', PStr (now 1))]],
                           total_uses = total_uses stats0 + 1,
                           last_used = Some (now 2)\<rparr>;
                  s1 = s\<lparr>tool_outputs := Some (outs\<lparr>router_llm := Some stats\<rparr>)\<rparr>;
                  s2 = (if next_agent = ''end''
                        then s1\<lparr>conversation_active := Some False, needs_followup := Some False\<rparr>
                        else s1);
                  next_agent2 = (if next_agent = ''end'' then END
                                 else if next_agent \<notin> set [''knowledge'', ''support'']
                                 then ''support'' else next_agent)
              in case workflow_history s2 of
                   None \<Rightarrow> router_except (key_error ''workflow_history'') s2
                 | Some history \<Rightarrow>
                     router_outcome next_agent2
                       (s2\<lparr>workflow_history :=
                              Some (history @
                                    [PDict [(''agent_name'', PStr ''router''),
                                            (''action'', PStr ''complete_routing''),
                                            (''input'', PStr inp),
                                            (''output'', PStr next_agent2),
                                            (''tool_calls'',
                                               PDict [(''router_llm'',
                                                 PDict [(''calls'', PList (calls stats)),
                                                        (''total_uses'', PInt (total_uses stats)),
                                                        (''last_used'', PStr (now 2)),
                                                        (''model'', PStr router_model),
                                                        (''status'', PStr ''success'')])]),
                                            (''timestamp'', PStr (now 3))]])\<rparr>)))"

definition end_tokens :: "string list" where
  "end_tokens = [''goodbye'', ''bye'', ''exit'', ''quit'', ''end'']"

definition route_message :: "completion \<Rightarrow> clock \<Rightarrow> state \<Rightarrow> requests \<times> state" where
  "route_message llm now s0 =
     (let s = router_init now s0
      in if lower (get_default [] (input s)) \<in> set end_tokens
         then ([], s\<lparr>conversation_active := Some False, next' := Some END\<rparr>)
         else
           (case messages s of
              None \<Rightarrow> ([], router_except (key_error ''messages'') s)
            | Some msgs \<Rightarrow>
                (case input s of
                   None \<Rightarrow> ([], router_except (key_error ''input'') s)
                 | Some inp \<Rightarrow>
                     (case llm msgs inp of
                        Inl e \<Rightarrow> ([(msgs, inp)], router_except e s)
                      | Inr reply \<Rightarrow> ([(msgs, inp)], router_reply now inp reply s)))))"

section \<open>The edges of the graph (graph.py)\<close>

definition end_indicators :: "string list" where
  "end_indicators =
     [''goodbye'', ''thank you'', ''thanks'', ''have a good day'',
      ''that'' @ [CHR 0x27] @ ''s all'',
      ''ticket has been created'', ''appointment has been scheduled'']"

definition followup_prompt :: string where
  "followup_prompt =
     ''Do you have any other questions or is there anything else I can help you with?''"

text \<open>
  \<open>should_continue\<close> returns its decision and leaves its writes in the state; it reads
  \<open>state["messages"]\<close>, which raises \<open>KeyError\<close> (\<open>Inl\<close>) when the key is missing.
\<close>

definition should_continue :: "state \<Rightarrow> string + string \<times> state" where
  "should_continue s =
     (if truthy_str (error s) then Inr (END, s)
      else
        (case messages s of
           None \<Rightarrow> Inl (key_error ''messages'')
         | Some msgs \<Rightarrow>
             (let last_message = (if msgs \<noteq> [] then content (last msgs) else [])
              in if list_ex (\<lambda>indicator. contains indicator (lower last_message)) end_indicators
                 then Inr (END, s)
                 else if get_default True (needs_followup s)
                 then Inr (''router'', s\<lparr>is_complete := Some False, input := Some followup_prompt\<rparr>)
                 else Inr (END, s))))"

definition route_edge :: "state \<Rightarrow> string \<times> state" where
  "route_edge s0 =
     (let s = (if messages s0 = None then s0\<lparr>messages := Some []\<rparr> else s0)
      in if truthy_str (error s) then (END, s)
         else
           (let next_agent = get_default [] (next' s)
            in if next_agent = [] then (''support'', s\<lparr>next' := Some ''support''\<rparr>)
               else
                 (let n = lower (strip next_agent)
                  in if n \<in> set [''end'', ''__end__'', END] then (END, s)
                     else if n \<in> set [''knowledge'', ''support'', ''router''] then (n, s)
                     else (''support'', s\<lparr>next' := Some ''support''\<rparr>))))"

definition personality_edge :: "state \<Rightarrow> string + string \<times> state" where
  "personality_edge s0 =
     (let s = (if messages s0 = None then s0\<lparr>messages := Some []\<rparr> else s0)
      in if truthy_str (error s) then Inr (END, s)
         else
           (case should_continue s of
              Inl e \<Rightarrow> Inl e
            | Inr (result, s1) \<Rightarrow>
                if result = ''router''
                then Inr (result, s1\<lparr>tool_result := None, last_tool := None,
                                      agent_outcome := None, current_agent := Some ''router''\<rparr>)
                else if result = END
                then Inr (result,
                          s1\<lparr>knowledge_context := Some [],
                             support_context :=
                               Some [(''current_ticket'', PNone),
                                     (''current_appointment'', PNone),
                                     (''interaction_history'',
                                        get_default (PList [])
                                          (map_of (get_default [] (support_context s1))
                                             ''interaction_history''))]\<rparr>)
                else Inr (result, s1)))"

section \<open>The Formatter step (agents/personality.py)\<close>

text \<open>
  The Formatter sends one text to the completion service and gets the rewritten text or an
  exception. It returns the payload; its writes to the state are returned with it, and so
  is the list of texts it sent.

  The payload's \<open>agent_workflow\<close> is the list object \<open>state["workflow_history"]\<close> itself, so
  it shows the entry appended after the payload was built as well. The payload of the
  \<open>except\<close> branch has no \<open>error\<close> key, which reads as \<open>None\<close>. The local
  \<open>original_response\<close> is assigned before anything can raise, so the \<open>except\<close> branch always
  finds it.
\<close>

type_synonym rewriter = "string \<Rightarrow> string + string"

definition apology_prefix :: string where
  "apology_prefix =
     ''I apologize, but I'' @ [CHR 0x27] @
     ''m having trouble formatting the response. Let me provide the direct answer:''"

definition tool_outputs_pv :: "tool_outputs_dict option \<Rightarrow> pv" where
  "tool_outputs_pv t =
     (case t of
        None \<Rightarrow> PDict []
      | Some outs \<Rightarrow>
          PDict ((case router_llm outs of
                    None \<Rightarrow> []
                  | Some r \<Rightarrow>
                      [(''router_llm'',
                        PDict [(''calls'', PList (calls r)),
                               (''total_uses'', PInt (total_uses r)),
                               (''last_used'',
                                  (case last_used r of None \<Rightarrow> PNone | Some t \<Rightarrow> PStr t))])]) @
                 map (\<lambda>kv. (fst kv, PList (snd kv))) (tool_lists outs)))"

text \<open>Lines 57 to 64.\<close>

definition original_of :: "state \<Rightarrow> string" where
  "original_of s =
     (if truthy_dict (agent_outcome s) \<and>
         map_of (get_default [] (agent_outcome s)) ''output'' \<noteq> None
      then get_default [] (map_of (get_default [] (agent_outcome s)) ''output'')
      else
        (case messages s of
           None \<Rightarrow> []
         | Some msgs \<Rightarrow>
             if msgs \<noteq> [] \<and> is_AIMessage (last msgs) then content (last msgs) else []))"

text \<open>The \<open>except\<close> branch, lines 125 to 137.\<close>

definition personality_except :: "string \<Rightarrow> string \<Rightarrow> state \<Rightarrow> payload \<times> state" where
  "personality_except e original_response s =
     (\<lparr>response = apology_prefix,
       source_agent_response = original_response,
       agent_workflow = [PDict [(''agent_name'', PStr ''error''), (''tool_calls'', PDict [])]],
       pl_conversation_active = True,
       pl_needs_followup = True,
       pl_error = None\<rparr>,
      s\<lparr>error := Some (''Error in personality agent: '' @ e)\<rparr>)"

text \<open>Lines 73 to 123, once the text to return is known.\<close>

definition personality_finish ::
  "clock \<Rightarrow> string \<Rightarrow> string \<Rightarrow> state \<Rightarrow> payload \<times> state" where
  "personality_finish now original_response personality_response s =
     (case (if original_response \<noteq> [] then
              (case tool_outputs s of
                 None \<Rightarrow> Inl (key_error ''tool_outputs'')
               | Some outs \<Rightarrow>
                   Inr (s\<lparr>tool_outputs :=
                            Some (outs\<lparr>tool_lists :=
                                    dict_set ''personality_llm''
                                      [PDict [(''input'', PStr original_response),
                                              (''output'', PStr personality_response),
                                              (''timestamp'', PStr (now 0))]]
                                      (tool_lists outs)\<rparr>)\<rparr>))
            else Inr s) of
        Inl e \<Rightarrow> personality_except e original_response s
      | Inr s1 \<Rightarrow>
          (case workflow_history s1 of
             None \<Rightarrow> personality_except (key_error ''workflow_history'') original_response s1
           | Some history \<Rightarrow>
               (let entry1 = PDict [(''agent_name'', PStr ''personality''),
                                    (''action'', PStr ''enhance_response''),
                                    (''input'', PStr original_response),
                                    (''output'', PStr personality_response),
                                    (''tool_calls'', tool_outputs_pv (tool_outputs s1)),
                                    (''timestamp'', PStr (now 1))];
                    entry2 = PDict [(''agent_name'', PStr ''personality''),
                                    (''action'', PStr ''enhance_response''),
                                    (''input'', PStr original_response),
                                    (''output'', PStr personality_response),
                                    (''timestamp'', PStr (now 2))];
                    s2 = s1\<lparr>workflow_history := Some (history @ [entry1])\<rparr>;
                    final_output =
                      \<lparr>response = personality_response,
                       source_agent_response = original_response,
                       agent_workflow = history @ [entry1, entry2],
                       pl_conversation_active = get_default True (conversation_active s2),
                       pl_needs_followup = get_default True (needs_followup s2),
                       pl_error = error s2\<rparr>
                in case messages s2 of
                     None \<Rightarrow> personality_except (key_error ''messages'') original_response s2
                   | Some msgs \<Rightarrow>
                       (final_output,
                        s2\<lparr>messages := Some (msgs @ [AIMessage personality_response]),
                           personality_output := Some final_output,
                           current_agent := Some ''personality'',
                           agent_stack := Some (get_default [] (agent_stack s2) @ [''personality'']),
                           workflow_history := Some (history @ [entry1, entry2])\<rparr>))))"

text \<open>Lines 49 to 55.\<close>

definition personality_init :: "state \<Rightarrow> state" where
  "personality_init s =
     (if personality_config s = None
      then s\<lparr>personality_config :=
               Some (PDict [(''style'', PStr ''professional''),
                            (''tone'', PStr ''friendly''),
                            (''language_level'', PStr ''clear'')])\<rparr>
      else s)"

definition personality_agent ::
  "rewriter \<Rightarrow> clock \<Rightarrow> state \<Rightarrow> string list \<times> payload \<times> state" where
  "personality_agent llm now s0 =
     (let s = personality_init s0;
          original_response = original_of s
      in if original_response \<noteq> [] then
           (case llm original_response of
              Inl e \<Rightarrow> ([original_response], personality_except e original_response s)
            | Inr result \<Rightarrow>
                ([original_response], personality_finish now original_response result s))
         else ([], personality_finish now original_response original_response s))"

section \<open>The support worker (agents/support.py)\<close>






















section \<open>States and ledger readings used in the statements\<close>

text \<open>The state that \<open>invoke_graph\<close> builds for a message (graph.py, lines 171 to 200).\<close>

definition initial_state :: "string \<Rightarrow> state" where
  "initial_state message =
     \<lparr>input = Some message,
      messages = Some [],
      agent_outcome = None,
      next' = Some [],
      error = None,
      tool_outputs = Some empty_tool_outputs,
      tool_usage = Some [],
      last_tool = None,
      tool_result = None,
      workflow_history = Some [],
      current_agent = None,
      agent_stack = Some [],
      conversation_active = Some True,
      needs_followup = Some True,
      is_complete = Some False,
      task_list = Some [],
      personality_config = None,
      personality_output = None,
      knowledge_context = Some [],
      support_context = Some []\<rparr>"

text \<open>\<open>state.get("tool_outputs", {}).get(name, [])\<close> and \<open>state.get("tool_usage", [])\<close>.\<close>

definition outputs_of :: "string \<Rightarrow> state \<Rightarrow> pv list" where
  "outputs_of name s =
     get_default [] (map_of (tool_lists (get_default empty_tool_outputs (tool_outputs s))) name)"

definition usage_of :: "state \<Rightarrow> pv list" where
  "usage_of s = get_default [] (tool_usage s)"

text \<open>The ledger of one tool after a call: its list in \<open>tool_outputs\<close> and \<open>tool_usage\<close>.\<close>

definition ledger_of :: "string \<Rightarrow> state option \<Rightarrow> pv list \<times> pv list" where
  "ledger_of name st =
     (case st of None \<Rightarrow> ([], []) | Some s \<Rightarrow> (outputs_of name s, usage_of s))"

definition entry_input :: "pv \<Rightarrow> pv option" where
  "entry_input e = pget e ''input''"

definition entry_output :: "pv \<Rightarrow> pv option" where
  "entry_output e = pget e ''output''"

text \<open>The payload of the Formatter's \<open>except\<close> branch.\<close>

definition fallback_payload :: "string \<Rightarrow> payload" where
  "fallback_payload original =
     \<lparr>response = apology_prefix, source_agent_response = original,
      agent_workflow = [PDict [(''agent_name'', PStr ''error''), (''tool_calls'', PDict [])]],
      pl_conversation_active = True, pl_needs_followup = True, pl_error = None\<rparr>"



section \<open>Strings and ledgers: auxiliary facts\<close>

lemma starts_with_append: "starts_with sub (sub @ post)"
  by (induction sub) auto

lemma contains_here: "contains sub (sub @ post)"
proof (cases "sub @ post")
  case Nil
  then show ?thesis by simp
next
  case (Cons a l)
  have "starts_with sub (a # l)"
    using starts_with_append [of sub post] Cons by simp
  then show ?thesis using Cons by simp
qed

lemma contains_append: "contains sub (pre @ sub @ post)"
  by (induction pre) (auto simp: contains_here)

lemma map_of_dict_set:
  "map_of (dict_set k v kvs) k' = (if k' = k then Some v else map_of kvs k')"
  by (induction kvs) auto

lemma outputs_of_append:
  "outputs_of name' (append_tool_output name e s) =
     (if name' = name then outputs_of name s @ [e] else outputs_of name' s)"
  by (simp add: outputs_of_def append_tool_output_def Let_def map_of_dict_set)

lemma usage_of_append_output: "usage_of (append_tool_output name e s) = usage_of s"
  by (simp add: usage_of_def append_tool_output_def Let_def)

lemma usage_of_append: "usage_of (append_tool_usage e s) = usage_of s @ [e]"
  by (simp add: usage_of_def append_tool_usage_def)

lemma outputs_of_append_usage: "outputs_of name (append_tool_usage e s) = outputs_of name s"
  by (simp add: outputs_of_def append_tool_usage_def)

lemma outputs_of_marks:
  "outputs_of name (s\<lparr>last_tool := a, tool_result := b\<rparr>) = outputs_of name s"
  by (simp add: outputs_of_def)

lemma usage_of_marks: "usage_of (s\<lparr>last_tool := a, tool_result := b\<rparr>) = usage_of s"
  by (simp add: usage_of_def)

lemma outputs_of_initial: "outputs_of name (initial_state m) = []"
  by (simp add: outputs_of_def initial_state_def empty_tool_outputs_def)

lemma usage_of_initial: "usage_of (initial_state m) = []"
  by (simp add: usage_of_def initial_state_def)

lemmas ledger_simps =
  outputs_of_marks outputs_of_append_usage outputs_of_append
  usage_of_marks usage_of_append usage_of_append_output

section \<open>The scheduling tool\<close>

lemma check_slot_fixed:
  "check_slot ''2025-05-26'' ''14:30'' =
     Inr (\<lparr>year = 2025, month = 5, day = 26\<rparr>, \<lparr>hour = 14, minute = 30\<rparr>)"
  by (simp add: check_slot_def strptime_date_def strptime_time_def digit_of_def
      days_in_month_def is_leap_def weekday_def toordinal_def days_before_month_def)

text \<open>The checks of the \<open>try\<close> block reject an early hour, a Saturday and a malformed date.\<close>

lemma check_slot_early: "check_slot ''2025-05-26'' ''08:00'' = Inl err_business_hours"
  by (simp add: check_slot_def strptime_date_def strptime_time_def digit_of_def
      days_in_month_def is_leap_def weekday_def toordinal_def days_before_month_def)

lemma check_slot_saturday: "check_slot ''2025-05-31'' ''14:30'' = Inl err_weekday"
  by (simp add: check_slot_def strptime_date_def strptime_time_def digit_of_def
      days_in_month_def is_leap_def weekday_def toordinal_def days_before_month_def)

lemma check_slot_malformed: "check_slot ''26/05/2025'' ''14:30'' = Inl err_format"
  by (simp add: check_slot_def strptime_date_def strptime_time_def digit_of_def
      days_in_month_def is_leap_def weekday_def toordinal_def days_before_month_def)

lemma format_date_fixed:
  "format_date \<lparr>year = 2025, month = 5, day = 26\<rparr> = ''Monday, May 26, 2025''"
  by (simp add: format_date_def weekday_def toordinal_def days_before_month_def is_leap_def
      day_name_def month_name_def pad2_def pad4_def digit_char_def)

lemma format_time_fixed: "format_time \<lparr>hour = 14, minute = 30\<rparr> = ''02:30 PM''"
  by (simp add: format_time_def pad2_def digit_char_def)

lemma schedule_support_call_text:
  "fst (schedule_support_call uuid4 now issue_summary call_type st) =
     call_response (''APT-'' @ upper (take 8 uuid4)) ''Monday, May 26, 2025'' ''02:30 PM''
       (if lower call_type \<in> set [''technical'', ''billing'', ''consultation'', ''general'']
        then call_type else ''general'') issue_summary"
  by (simp add: schedule_support_call_def check_slot_fixed format_date_fixed format_time_fixed
      Let_def del: set_simps)

text \<open>
  Claim C2, as the code has it: the tool has no date or time parameter. Whatever call the
  customer asked for, and so for a request at 08:00 or on a Saturday as well, it books
  Monday 26 May 2025 at 14:30 and returns the confirmation, which is none of the three
  error texts.
\<close>

theorem schedule_support_call_ignores_request:
  "fst (schedule_support_call uuid4 now issue_summary call_type st) =
     call_response (''APT-'' @ upper (take 8 uuid4)) ''Monday, May 26, 2025'' ''02:30 PM''
       (if lower call_type \<in> set [''technical'', ''billing'', ''consultation'', ''general'']
        then call_type else ''general'') issue_summary \<and>
   fst (schedule_support_call uuid4 now issue_summary call_type st) \<noteq> err_business_hours \<and>
   fst (schedule_support_call uuid4 now issue_summary call_type st) \<noteq> err_weekday \<and>
   fst (schedule_support_call uuid4 now issue_summary call_type st) \<noteq> err_format"
proof -
  have "call_response a b c d e \<noteq> err_business_hours \<and>
      call_response a b c d e \<noteq> err_weekday \<and> call_response a b c d e \<noteq> err_format"
    for a b c d e
    by (simp add: call_response_def err_business_hours_def err_weekday_def err_format_def)
  then show ?thesis
    unfolding schedule_support_call_text by blast
qed

lemma create_support_ticket_text:
  "fst (create_support_ticket uuid4 now d p c st) =
     ticket_response (''TICK-'' @ upper (take 8 uuid4)) d"
  by (simp add: create_support_ticket_def Let_def)

lemma create_support_ticket_ledger:
  "ledger_of ''create_support_ticket'' (snd (create_support_ticket uuid4 now d p c (Some s))) =
     (outputs_of ''create_support_ticket'' s @
        [PDict [(''input'',
                 PDict [(''issue_description'', PStr d),
                        (''priority'',
                           PStr (if lower p \<in> set [''low'', ''normal'', ''high'', ''urgent'']
                                 then p else ''normal'')),
                        (''category'',
                           PStr (if lower c \<in> set [''billing'', ''technical'', ''account'',
                                                     ''general'', ''refund'']
                                 then c else ''general''))]),
                (''output'', PStr (ticket_response (''TICK-'' @ upper (take 8 uuid4)) d)),
                (''timestamp'', PStr (now 0))]],
      usage_of s @
        [PDict [(''tool'', PStr ''create_support_ticket''),
                (''input'', PDict [(''ticket_id'', PStr (''TICK-'' @ upper (take 8 uuid4))),
                                   (''issue_description'', PStr d)]),
                (''output'', PStr (ticket_response (''TICK-'' @ upper (take 8 uuid4)) d)),
                (''timestamp'', PStr (now 1))]])"
  by (simp add: create_support_ticket_def ledger_of_def Let_def ledger_simps del: set_simps)

lemma schedule_support_call_ledger:
  "ledger_of ''schedule_support_call'' (snd (schedule_support_call uuid4 now summary ct (Some s))) =
     (outputs_of ''schedule_support_call'' s @
        [PDict [(''input'',
                 PDict [(''preferred_date'', PStr ''2025-05-26''),
                        (''preferred_time'', PStr ''14:30''),
                        (''issue_summary'', PStr summary),
                        (''call_type'',
                           PStr (if lower ct \<in> set [''technical'', ''billing'', ''consultation'',
                                                      ''general'']
                                 then ct else ''general''))]),
                (''output'', PStr (fst (schedule_support_call uuid4 now summary ct (Some s)))),
                (''timestamp'', PStr (now 1))]],
      usage_of s @
        [PDict [(''tool'', PStr ''schedule_support_call''),
                (''input'',
                 PDict [(''appointment_id'', PStr (''APT-'' @ upper (take 8 uuid4))),
                        (''date'', PStr ''2025-05-26''),
                        (''time'', PStr ''14:30''),
                        (''formatted_datetime'', PStr ''Monday, May 26, 2025 at 02:30 PM''),
                        (''issue_summary'', PStr summary),
                        (''call_type'',
                           PStr (lower (if lower ct \<in> set [''technical'', ''billing'',
                                                             ''consultation'', ''general'']
                                        then ct else ''general''))),
                        (''status'', PStr ''scheduled''),
                        (''created_at'', PStr (now 0))]),
                (''output'', PStr (fst (schedule_support_call uuid4 now summary ct (Some s)))),
                (''timestamp'', PStr (now 2))]])"
  by (simp add: schedule_support_call_def ledger_of_def check_slot_fixed format_date_fixed
      format_time_fixed Let_def ledger_simps del: set_simps)

section \<open>The tool ledger\<close>

text \<open>
  Claim C8 on the code: a call of \<open>create_support_ticket\<close> or of \<open>schedule_support_call\<close>
  with a state appends exactly one entry to the tool's list in \<open>tool_outputs\<close> and exactly
  one entry to \<open>tool_usage\<close>, and both entries carry the text the tool returns as their
  output. Their inputs do not match: the entry of \<open>tool_outputs\<close> holds the arguments of
  the call, the entry of \<open>tool_usage\<close> holds the ticket or appointment that was created.
\<close>

theorem tool_ledger_inputs_differ:
  "(\<exists>e1 e2.
      ledger_of ''create_support_ticket''
        (snd (create_support_ticket uuid4 now d p c (Some s))) =
        (outputs_of ''create_support_ticket'' s @ [e1], usage_of s @ [e2]) \<and>
      entry_output e1 = Some (PStr (fst (create_support_ticket uuid4 now d p c (Some s)))) \<and>
      entry_output e2 = entry_output e1 \<and>
      pget e2 ''tool'' = Some (PStr ''create_support_ticket'') \<and>
      entry_input e1 =
        Some (PDict [(''issue_description'', PStr d),
                     (''priority'',
                        PStr (if lower p \<in> set [''low'', ''normal'', ''high'', ''urgent'']
                              then p else ''normal'')),
                     (''category'',
                        PStr (if lower c \<in> set [''billing'', ''technical'', ''account'',
                                                  ''general'', ''refund'']
                              then c else ''general''))]) \<and>
      entry_input e2 =
        Some (PDict [(''ticket_id'', PStr (''TICK-'' @ upper (take 8 uuid4))),
                     (''issue_description'', PStr d)]) \<and>
      entry_input e1 \<noteq> entry_input e2) \<and>
   (\<exists>e1 e2 args appointment.
      ledger_of ''schedule_support_call''
        (snd (schedule_support_call uuid4 now summary ct (Some s))) =
        (outputs_of ''schedule_support_call'' s @ [e1], usage_of s @ [e2]) \<and>
      entry_output e1 = Some (PStr (fst (schedule_support_call uuid4 now summary ct (Some s)))) \<and>
      entry_output e2 = entry_output e1 \<and>
      pget e2 ''tool'' = Some (PStr ''schedule_support_call'') \<and>
      entry_input e1 = Some (PDict args) \<and>
      entry_input e2 = Some (PDict appointment) \<and>
      map_of args ''issue_summary'' = Some (PStr summary) \<and>
      map_of args ''call_type'' =
        Some (PStr (if lower ct \<in> set [''technical'', ''billing'', ''consultation'', ''general'']
                    then ct else ''general'')) \<and>
      map_of args ''appointment_id'' = None \<and>
      map_of appointment ''issue_summary'' = Some (PStr summary) \<and>
      map_of appointment ''appointment_id'' = Some (PStr (''APT-'' @ upper (take 8 uuid4))) \<and>
      map_of appointment ''status'' = Some (PStr ''scheduled'') \<and>
      entry_input e1 \<noteq> entry_input e2)"
proof (rule conjI)
  show "\<exists>e1 e2.
      ledger_of ''create_support_ticket''
        (snd (create_support_ticket uuid4 now d p c (Some s))) =
        (outputs_of ''create_support_ticket'' s @ [e1], usage_of s @ [e2]) \<and>
      entry_output e1 = Some (PStr (fst (create_support_ticket uuid4 now d p c (Some s)))) \<and>
      entry_output e2 = entry_output e1 \<and>
      pget e2 ''tool'' = Some (PStr ''create_support_ticket'') \<and>
      entry_input e1 =
        Some (PDict [(''issue_description'', PStr d),
                     (''priority'',
                        PStr (if lower p \<in> set [''low'', ''normal'', ''high'', ''urgent'']
                              then p else ''normal'')),
                     (''category'',
                        PStr (if lower c \<in> set [''billing'', ''technical'', ''account'',
                                                  ''general'', ''refund'']
                              then c else ''general''))]) \<and>
      entry_input e2 =
        Some (PDict [(''ticket_id'', PStr (''TICK-'' @ upper (take 8 uuid4))),
                     (''issue_description'', PStr d)]) \<and>
      entry_input e1 \<noteq> entry_input e2"
    unfolding create_support_ticket_ledger create_support_ticket_text
    by (simp add: entry_input_def entry_output_def del: set_simps)
next
  show "\<exists>e1 e2 args appointment.
      ledger_of ''schedule_support_call''
        (snd (schedule_support_call uuid4 now summary ct (Some s))) =
        (outputs_of ''schedule_support_call'' s @ [e1], usage_of s @ [e2]) \<and>
      entry_output e1 = Some (PStr (fst (schedule_support_call uuid4 now summary ct (Some s)))) \<and>
      entry_output e2 = entry_output e1 \<and>
      pget e2 ''tool'' = Some (PStr ''schedule_support_call'') \<and>
      entry_input e1 = Some (PDict args) \<and>
      entry_input e2 = Some (PDict appointment) \<and>
      map_of args ''issue_summary'' = Some (PStr summary) \<and>
      map_of args ''call_type'' =
        Some (PStr (if lower ct \<in> set [''technical'', ''billing'', ''consultation'', ''general'']
                    then ct else ''general'')) \<and>
      map_of args ''appointment_id'' = None \<and>
      map_of appointment ''issue_summary'' = Some (PStr summary) \<and>
      map_of appointment ''appointment_id'' = Some (PStr (''APT-'' @ upper (take 8 uuid4))) \<and>
      map_of appointment ''status'' = Some (PStr ''scheduled'') \<and>
      entry_input e1 \<noteq> entry_input e2"
    unfolding schedule_support_call_ledger
    by (simp add: entry_input_def entry_output_def del: set_simps)
qed

text \<open>
  One ticket created from the initial state: the input recorded in \<open>tool_outputs\<close>
  (description, priority, category) is not the input recorded in \<open>tool_usage\<close> (ticket
  identifier, description).
\<close>

lemma tool_ledger_inputs_example:
  "map entry_input
     (fst (ledger_of ''create_support_ticket''
        (snd (create_support_ticket ''0f8fad5b-d9cb-469f-a165-70867728950e''
                (\<lambda>k. ''2025-05-26 10:00:00'') ''card reader is broken'' ''normal'' ''general''
                (Some (initial_state ''my card reader is broken'')))))) =
     [Some (PDict [(''issue_description'', PStr ''card reader is broken''),
                   (''priority'', PStr ''normal''),
                   (''category'', PStr ''general'')])] \<and>
   map entry_input
     (snd (ledger_of ''create_support_ticket''
        (snd (create_support_ticket ''0f8fad5b-d9cb-469f-a165-70867728950e''
                (\<lambda>k. ''2025-05-26 10:00:00'') ''card reader is broken'' ''normal'' ''general''
                (Some (initial_state ''my card reader is broken'')))))) =
     [Some (PDict [(''ticket_id'', PStr ''TICK-0F8FAD5B''),
                   (''issue_description'', PStr ''card reader is broken'')])] \<and>
   map entry_input
     (fst (ledger_of ''create_support_ticket''
        (snd (create_support_ticket ''0f8fad5b-d9cb-469f-a165-70867728950e''
                (\<lambda>k. ''2025-05-26 10:00:00'') ''card reader is broken'' ''normal'' ''general''
                (Some (initial_state ''my card reader is broken'')))))) \<noteq>
   map entry_input
     (snd (ledger_of ''create_support_ticket''
        (snd (create_support_ticket ''0f8fad5b-d9cb-469f-a165-70867728950e''
                (\<lambda>k. ''2025-05-26 10:00:00'') ''card reader is broken'' ''normal'' ''general''
                (Some (initial_state ''my card reader is broken''))))))"
  by (simp add: create_support_ticket_def ledger_of_def Let_def ledger_simps outputs_of_initial
      usage_of_initial entry_input_def lower_def lower_char_def upper_def upper_char_def)


section \<open>The ticket tool\<close>

text \<open>
  Claim C10, as the code has it: \<open>create_support_ticket\<close> returns the success
  confirmation for every description, priority and category, and the confirmation shows
  the new ticket identifier. A priority is replaced by \<open>normal\<close>, and a category by
  \<open>general\<close>, when its lower-case form is outside the allowed set; otherwise it is
  recorded as it was written.
\<close>

theorem create_support_ticket_never_rejects:
  "fst (create_support_ticket uuid4 now d p c st) =
     ticket_response (''TICK-'' @ upper (take 8 uuid4)) d \<and>
   contains ''Support Ticket Created Successfully!''
     (fst (create_support_ticket uuid4 now d p c st)) \<and>
   contains (''TICK-'' @ upper (take 8 uuid4)) (fst (create_support_ticket uuid4 now d p c st)) \<and>
   map entry_input
     (fst (ledger_of ''create_support_ticket''
            (snd (create_support_ticket uuid4 now d p c (Some s))))) =
     map entry_input (outputs_of ''create_support_ticket'' s) @
     [Some (PDict [(''issue_description'', PStr d),
                   (''priority'',
                      PStr (if lower p \<in> set [''low'', ''normal'', ''high'', ''urgent'']
                            then p else ''normal'')),
                   (''category'',
                      PStr (if lower c \<in> set [''billing'', ''technical'', ''account'',
                                                ''general'', ''refund'']
                            then c else ''general''))])]"
proof -
  have c1: "contains ''Support Ticket Created Successfully!''
              (ticket_response (''TICK-'' @ upper (take 8 uuid4)) d)"
    unfolding ticket_response_def
    using contains_append [of "''Support Ticket Created Successfully!''"
        "[CHR 0x0A] @ ''    '' @ [CHR 0xE2, CHR 0x9C, CHR 0x85] @ '' ''"]
    by simp
  have c2: "contains (''TICK-'' @ upper (take 8 uuid4))
              (ticket_response (''TICK-'' @ upper (take 8 uuid4)) d)"
    unfolding ticket_response_def
    using contains_append [of "''TICK-'' @ upper (take 8 uuid4)"
        "[CHR 0x0A] @ ''    '' @ [CHR 0xE2, CHR 0x9C, CHR 0x85] @
         '' Support Ticket Created Successfully!'' @ [CHR 0x0A] @ ''    Ticket ID: ''"]
    by simp
  have l: "map entry_input
     (fst (ledger_of ''create_support_ticket''
            (snd (create_support_ticket uuid4 now d p c (Some s))))) =
     map entry_input (outputs_of ''create_support_ticket'' s) @
     [Some (PDict [(''issue_description'', PStr d),
                   (''priority'',
                      PStr (if lower p \<in> set [''low'', ''normal'', ''high'', ''urgent'']
                            then p else ''normal'')),
                   (''category'',
                      PStr (if lower c \<in> set [''billing'', ''technical'', ''account'',
                                                ''general'', ''refund'']
                            then c else ''general''))])]"
    unfolding create_support_ticket_ledger
    by (simp add: entry_input_def del: set_simps)
  show ?thesis
    using c1 c2 l unfolding create_support_ticket_text by blast
qed

text \<open>
  Claim C10 as stated fails: the priority \<open>HIGH\<close> is not one of \<open>low\<close>, \<open>normal\<close>,
  \<open>high\<close>, \<open>urgent\<close>, and it is recorded as \<open>HIGH\<close>, not as \<open>normal\<close>.
\<close>

theorem create_support_ticket_priority_counterexample:
  "''HIGH'' \<notin> set [''low'', ''normal'', ''high'', ''urgent''] \<and>
   map entry_input
     (fst (ledger_of ''create_support_ticket''
        (snd (create_support_ticket ''0f8fad5b-d9cb-469f-a165-70867728950e''
                (\<lambda>k. ''2025-05-26 10:00:00'') ''card reader is broken'' ''HIGH'' ''general''
                (Some (initial_state ''my card reader is broken'')))))) =
     [Some (PDict [(''issue_description'', PStr ''card reader is broken''),
                   (''priority'', PStr ''HIGH''),
                   (''category'', PStr ''general'')])] \<and>
   map entry_input
     (fst (ledger_of ''create_support_ticket''
        (snd (create_support_ticket ''0f8fad5b-d9cb-469f-a165-70867728950e''
                (\<lambda>k. ''2025-05-26 10:00:00'') ''card reader is broken'' ''HIGH'' ''general''
                (Some (initial_state ''my card reader is broken'')))))) \<noteq>
     [Some (PDict [(''issue_description'', PStr ''card reader is broken''),
                   (''priority'', PStr ''normal''),
                   (''category'', PStr ''general'')])]"
  by (simp add: create_support_ticket_def ledger_of_def Let_def ledger_simps outputs_of_initial
      entry_input_def lower_def lower_char_def)

section \<open>The Classifier step\<close>

lemma END_neq:
  "END \<noteq> ''support''" "END \<noteq> ''knowledge''" "''support'' \<noteq> END" "''knowledge'' \<noteq> END"
  by (simp_all add: END_def)

lemma norm_names:
  "lower (strip ''support'') = ''support''"
  "lower (strip ''knowledge'') = ''knowledge''"
  "lower (strip END) = END"
  by (simp_all add: END_def lower_def strip_def is_space_def lower_char_def)







lemma router_init_fields:
  "input (router_init now s) = input s"
  "messages (router_init now s) = messages s"
  "agent_outcome (router_init now s) = agent_outcome s"
  "next' (router_init now s) = next' s"
  "error (router_init now s) = error s"
  "conversation_active (router_init now s) = Some (get_default True (conversation_active s))"
  "needs_followup (router_init now s) = Some (get_default True (needs_followup s))"
  "task_list (router_init now s) = Some (get_default [] (task_list s))"
  "tool_outputs (router_init now s) = Some (get_default empty_tool_outputs (tool_outputs s))"
  by (simp_all add: router_init_def Let_def)


text \<open>
  Claim C3, as the code has it: when the lower-case form of the input is one of the end
  tokens \<open>goodbye\<close>, \<open>bye\<close>, \<open>exit\<close>, \<open>quit\<close>, \<open>end\<close>, the Classifier sets
  \<open>conversation_active\<close> to false and \<open>next\<close> to the terminal marker and returns at once:
  no request goes to the completion service, \<open>tool_outputs\<close> gets no \<open>router_llm\<close> call,
  and nothing but the bookkeeping of lines 64 to 92 is written. The input is not trimmed.
\<close>

theorem fast_path_ends_without_completion:
  assumes "lower (get_default [] (input s)) \<in> set end_tokens"
  shows "fst (route_message llm now s) = [] \<and>
         snd (route_message llm now s) =
           (router_init now s)\<lparr>conversation_active := Some False, next' := Some END\<rparr> \<and>
         conversation_active (snd (route_message llm now s)) = Some False \<and>
         next' (snd (route_message llm now s)) = Some END \<and>
         tool_outputs (snd (route_message llm now s)) =
           Some (get_default empty_tool_outputs (tool_outputs s)) \<and>
         error (snd (route_message llm now s)) = error s"
  using assms by (simp add: route_message_def Let_def router_init_fields)

text \<open>The fast path on the input \<open>Goodbye\<close>.\<close>

theorem fast_path_ends_without_completion_witness:
  "lower (get_default [] (input (initial_state ''Goodbye''))) \<in> set end_tokens \<and>
   fst (route_message (\<lambda>msgs inp. Inr ''support'') (\<lambda>k. ''2025-05-26 10:00:00'')
          (initial_state ''Goodbye'')) = [] \<and>
   conversation_active (snd (route_message (\<lambda>msgs inp. Inr ''support'')
          (\<lambda>k. ''2025-05-26 10:00:00'') (initial_state ''Goodbye''))) = Some False \<and>
   next' (snd (route_message (\<lambda>msgs inp. Inr ''support'')
          (\<lambda>k. ''2025-05-26 10:00:00'') (initial_state ''Goodbye''))) = Some END \<and>
   tool_outputs (snd (route_message (\<lambda>msgs inp. Inr ''support'')
          (\<lambda>k. ''2025-05-26 10:00:00'') (initial_state ''Goodbye''))) = Some empty_tool_outputs"
proof -
  have h: "lower (get_default [] (input (initial_state ''Goodbye''))) \<in> set end_tokens"
    by (simp add: initial_state_def end_tokens_def lower_def lower_char_def)
  have t: "tool_outputs (initial_state ''Goodbye'') = Some empty_tool_outputs"
    by (simp add: initial_state_def)
  show ?thesis
    using h t fast_path_ends_without_completion [OF h, of "\<lambda>msgs inp. Inr ''support''"
        "\<lambda>k. ''2025-05-26 10:00:00''"]
    by (simp add: router_init_fields)
qed

text \<open>
  Claim C3 as stated fails: the input \<open>bye\<close> followed by a blank is an end token once
  lowered and trimmed, yet the Classifier asks the completion service and routes to
  \<open>support\<close> with the conversation still active.
\<close>

theorem fast_path_untrimmed_counterexample:
  "strip (lower ''bye '') \<in> set end_tokens \<and>
   fst (route_message (\<lambda>msgs inp. Inr ''support'') (\<lambda>k. ''2025-05-26 10:00:00'')
          (initial_state ''bye '')) = [([], ''bye '')] \<and>
   next' (snd (route_message (\<lambda>msgs inp. Inr ''support'') (\<lambda>k. ''2025-05-26 10:00:00'')
          (initial_state ''bye ''))) = Some ''support'' \<and>
   conversation_active (snd (route_message (\<lambda>msgs inp. Inr ''support'')
          (\<lambda>k. ''2025-05-26 10:00:00'') (initial_state ''bye ''))) = Some True"
  by (simp add: route_message_def router_init_def router_reply_def router_outcome_def
      router_finish_def initial_state_def empty_tool_outputs_def end_tokens_def Let_def END_def
      lower_def lower_char_def strip_def is_space_def)









lemma route_message_slow_path:
  assumes "lower (get_default [] (input s)) \<notin> set end_tokens"
    and "messages s = Some msgs" and "input s = Some inp"
  shows "route_message llm now s =
           (case llm msgs inp of
              Inl e \<Rightarrow> ([(msgs, inp)], router_except e (router_init now s))
            | Inr reply \<Rightarrow> ([(msgs, inp)], router_reply now inp reply (router_init now s)))"
  using assms by (simp add: route_message_def Let_def router_init_fields)



text \<open>
  Claim C7, as the code has it: when the completion service raises, the Classifier catches
  the exception, stores its text in \<open>error\<close> and sets \<open>next\<close> to \<open>support\<close>. The edge
  out of the Classifier reads \<open>error\<close> first: it ends the turn when the stored text is not
  empty, and goes on to \<open>support\<close> only when it is empty.
\<close>

theorem completion_failure_is_caught:
  assumes "lower (get_default [] (input s)) \<notin> set end_tokens"
    and "messages s = Some msgs" and "input s = Some inp"
    and "llm msgs inp = Inl e"
  shows "fst (route_message llm now s) = [(msgs, inp)] \<and>
         error (snd (route_message llm now s)) = Some e \<and>
         next' (snd (route_message llm now s)) = Some ''support'' \<and>
         fst (route_edge (snd (route_message llm now s))) = (if e = [] then ''support'' else END)"
  unfolding route_message_slow_path [OF assms(1-3)]
  using assms(2,4)
  by (simp add: router_except_def route_edge_def router_init_fields Let_def norm_names END_neq)


lemma initial_state_fields:
  "input (initial_state m) = Some m"
  "messages (initial_state m) = Some []"
  "agent_outcome (initial_state m) = None"
  "needs_followup (initial_state m) = Some True"
  "task_list (initial_state m) = Some []"
  "conversation_active (initial_state m) = Some True"
  "error (initial_state m) = None"
  by (simp_all add: initial_state_def)

lemma not_token: "lower ''what are the fees'' \<notin> set end_tokens"
  "strip (lower ''what are the fees'') \<notin> set end_tokens"
  "lower ''my payment failed'' \<notin> set end_tokens"
  "lower ''that is all I needed'' \<notin> set end_tokens"
  by (simp_all add: end_tokens_def lower_def lower_char_def strip_def is_space_def)








text \<open>
  Claim C7 as stated fails: after a caught \<open>Connection error.\<close> the state says
  \<open>support\<close>, and the edge out of the Classifier ends the turn.
\<close>

theorem failure_ends_turn_counterexample:
  "error (snd (route_message (\<lambda>msgs inp. Inl ''Connection error.'')
      (\<lambda>k. ''2025-05-26 10:00:00'') (initial_state ''my payment failed''))) =
     Some ''Connection error.'' \<and>
   next' (snd (route_message (\<lambda>msgs inp. Inl ''Connection error.'')
      (\<lambda>k. ''2025-05-26 10:00:00'') (initial_state ''my payment failed''))) = Some ''support'' \<and>
   fst (route_edge (snd (route_message (\<lambda>msgs inp. Inl ''Connection error.'')
      (\<lambda>k. ''2025-05-26 10:00:00'') (initial_state ''my payment failed'')))) = END"
proof -
  have n: "lower (get_default [] (input (initial_state ''my payment failed''))) \<notin> set end_tokens"
    by (simp add: initial_state_fields not_token)
  show ?thesis
    unfolding route_message_slow_path [OF n initial_state_fields(2) initial_state_fields(1)]
    by (simp add: router_except_def route_edge_def router_init_fields initial_state_fields)
qed

text \<open>A failure with a text and a failure with the empty text.\<close>

theorem completion_failure_is_caught_witness:
  "lower (get_default [] (input (initial_state ''my payment failed''))) \<notin> set end_tokens \<and>
   error (snd (route_message (\<lambda>msgs inp. Inl ''Connection error.'')
      (\<lambda>k. ''2025-05-26 10:00:00'') (initial_state ''my payment failed''))) =
     Some ''Connection error.'' \<and>
   next' (snd (route_message (\<lambda>msgs inp. Inl ''Connection error.'')
      (\<lambda>k. ''2025-05-26 10:00:00'') (initial_state ''my payment failed''))) = Some ''support'' \<and>
   fst (route_edge (snd (route_message (\<lambda>msgs inp. Inl ''Connection error.'')
      (\<lambda>k. ''2025-05-26 10:00:00'') (initial_state ''my payment failed'')))) = END \<and>
   fst (route_edge (snd (route_message (\<lambda>msgs inp. Inl [])
      (\<lambda>k. ''2025-05-26 10:00:00'') (initial_state ''my payment failed'')))) = ''support''"
proof -
  have n: "lower (get_default [] (input (initial_state ''my payment failed''))) \<notin> set end_tokens"
    by (simp add: initial_state_fields not_token)
  have l: "(\<lambda>msgs inp. Inl ''Connection error.'' :: string + string) []
             ''my payment failed'' = Inl ''Connection error.''"
    "(\<lambda>msgs inp. Inl [] :: string + string) [] ''my payment failed'' = Inl []"
    by simp_all
  show ?thesis
    using n
      completion_failure_is_caught [where llm = "\<lambda>msgs inp. Inl ''Connection error.''"
        and now = "\<lambda>k. ''2025-05-26 10:00:00''",
        OF n initial_state_fields(2) initial_state_fields(1) l(1)]
      completion_failure_is_caught [where llm = "\<lambda>msgs inp. Inl []"
        and now = "\<lambda>k. ''2025-05-26 10:00:00''",
        OF n initial_state_fields(2) initial_state_fields(1) l(2)]
    by simp
qed

section \<open>The Continuation Policy\<close>








section \<open>The Formatter step\<close>

lemma personality_init_fields:
  "original_of (personality_init s) = original_of s"
  "tool_outputs (personality_init s) = tool_outputs s"
  "workflow_history (personality_init s) = workflow_history s"
  "messages (personality_init s) = messages s"
  "conversation_active (personality_init s) = conversation_active s"
  "needs_followup (personality_init s) = needs_followup s"
  "error (personality_init s) = error s"
  by (auto simp: personality_init_def original_of_def)

lemma personality_except_fields:
  "fst (personality_except e original s) = fallback_payload original"
  "error (snd (personality_except e original s)) = Some (''Error in personality agent: '' @ e)"
  by (simp_all add: personality_except_def fallback_payload_def)

lemma personality_finish_fails:
  assumes "(original \<noteq> [] \<and> tool_outputs s = None) \<or> workflow_history s = None \<or> messages s = None"
  shows "fst (personality_finish now original text s) = fallback_payload original \<and>
         (\<exists>e. error (snd (personality_finish now original text s)) =
                Some (''Error in personality agent: '' @ e))"
proof (cases "original \<noteq> [] \<and> tool_outputs s = None")
  case True
  then show ?thesis
    by (simp add: personality_finish_def personality_except_fields)
next
  case False
  note f = False
  show ?thesis
  proof (cases "workflow_history s")
    case None
    with f show ?thesis
      by (cases "tool_outputs s")
         (auto simp: personality_finish_def personality_except_fields)
  next
    case (Some h)
    with assms f have m: "messages s = None" by auto
    with f Some show ?thesis
      by (cases "tool_outputs s")
         (auto simp: personality_finish_def personality_except_fields Let_def)
  qed
qed

lemma personality_finish_returns:
  assumes "\<not> (original \<noteq> [] \<and> tool_outputs s = None)" and "workflow_history s = Some h"
    and "messages s = Some msgs"
  shows "response (fst (personality_finish now original text s)) = text"
    and "source_agent_response (fst (personality_finish now original text s)) = original"
    and "pl_conversation_active (fst (personality_finish now original text s)) =
           get_default True (conversation_active s)"
    and "pl_needs_followup (fst (personality_finish now original text s)) =
           get_default True (needs_followup s)"
    and "pl_error (fst (personality_finish now original text s)) = error s"
    and "error (snd (personality_finish now original text s)) = error s"
    and "messages (snd (personality_finish now original text s)) = Some (msgs @ [AIMessage text])"
  using assms
  by (cases "tool_outputs s"; simp add: personality_finish_def Let_def)+


text \<open>
  Claim C4, as the code has it. The Formatter returns a payload for every state. It fails
  inside when the completion service raises, when there is a text to rewrite and no
  \<open>tool_outputs\<close>, or when \<open>workflow_history\<close> or \<open>messages\<close> is missing: then the payload is
  the fixed apology with \<open>conversation_active\<close> and \<open>needs_followup\<close> true, and the error is
  stored in the state. Otherwise the payload carries the rewritten text, or the empty text
  when there was nothing to rewrite, and the flags of the state. In particular, with no
  outcome and an empty transcript nothing is sent to the completion service; the response
  is empty when \<open>workflow_history\<close> is there and the apology when it is missing.
\<close>

theorem formatter_payload:
  "((original_of s \<noteq> [] \<and> (\<exists>e. llm (original_of s) = Inl e \<or> tool_outputs s = None)) \<or>
    workflow_history s = None \<or> messages s = None \<longrightarrow>
      fst (snd (personality_agent llm now s)) = fallback_payload (original_of s) \<and>
      (\<exists>e. error (snd (snd (personality_agent llm now s))) =
             Some (''Error in personality agent: '' @ e))) \<and>
   (\<not> ((original_of s \<noteq> [] \<and> (\<exists>e. llm (original_of s) = Inl e \<or> tool_outputs s = None)) \<or>
       workflow_history s = None \<or> messages s = None) \<longrightarrow>
      (if original_of s = [] then response (fst (snd (personality_agent llm now s))) = []
       else llm (original_of s) = Inr (response (fst (snd (personality_agent llm now s))))) \<and>
      source_agent_response (fst (snd (personality_agent llm now s))) = original_of s \<and>
      pl_conversation_active (fst (snd (personality_agent llm now s))) =
        get_default True (conversation_active s) \<and>
      pl_needs_followup (fst (snd (personality_agent llm now s))) =
        get_default True (needs_followup s) \<and>
      pl_error (fst (snd (personality_agent llm now s))) = error s \<and>
      error (snd (snd (personality_agent llm now s))) = error s \<and>
      messages (snd (snd (personality_agent llm now s))) =
        Some (get_default [] (messages s) @
              [AIMessage (response (fst (snd (personality_agent llm now s))))])) \<and>
   (agent_outcome s = None \<and> messages s = Some [] \<longrightarrow>
      fst (personality_agent llm now s) = [] \<and>
      response (fst (snd (personality_agent llm now s))) =
        (if workflow_history s = None then apology_prefix else []) \<and>
      pl_conversation_active (fst (snd (personality_agent llm now s))) =
        (workflow_history s = None \<or> get_default True (conversation_active s)))"
proof -
  let ?i = "personality_init s"
  let ?o = "original_of s"
  have fails: "fst (snd (personality_agent llm now s)) = fallback_payload ?o \<and>
      (\<exists>e. error (snd (snd (personality_agent llm now s))) =
             Some (''Error in personality agent: '' @ e))"
    if f: "(?o \<noteq> [] \<and> (\<exists>e. llm ?o = Inl e \<or> tool_outputs s = None)) \<or>
           workflow_history s = None \<or> messages s = None"
  proof (cases "?o \<noteq> [] \<and> (\<exists>e. llm ?o = Inl e)")
    case True
    then obtain e where "llm ?o = Inl e" and "?o \<noteq> []" by blast
    then show ?thesis
      by (simp add: personality_agent_def Let_def personality_init_fields personality_except_fields)
  next
    case False
    with f have g: "(?o \<noteq> [] \<and> tool_outputs ?i = None) \<or> workflow_history ?i = None \<or>
                   messages ?i = None"
      by (auto simp: personality_init_fields)
    show ?thesis
    proof (cases "?o = []")
      case True
      with personality_finish_fails [OF g, of now "[]"] show ?thesis
        by (simp add: personality_agent_def Let_def personality_init_fields)
    next
      case n: False
      with False obtain r where r: "llm ?o = Inr r"
        by (cases "llm ?o") auto
      from personality_finish_fails [OF g, of now r] n r show ?thesis
        by (simp add: personality_agent_def Let_def personality_init_fields)
    qed
  qed
  have returns: "(if ?o = [] then response (fst (snd (personality_agent llm now s))) = []
       else llm ?o = Inr (response (fst (snd (personality_agent llm now s))))) \<and>
      source_agent_response (fst (snd (personality_agent llm now s))) = ?o \<and>
      pl_conversation_active (fst (snd (personality_agent llm now s))) =
        get_default True (conversation_active s) \<and>
      pl_needs_followup (fst (snd (personality_agent llm now s))) =
        get_default True (needs_followup s) \<and>
      pl_error (fst (snd (personality_agent llm now s))) = error s \<and>
      error (snd (snd (personality_agent llm now s))) = error s \<and>
      messages (snd (snd (personality_agent llm now s))) =
        Some (get_default [] (messages s) @
              [AIMessage (response (fst (snd (personality_agent llm now s))))])"
    if ok: "\<not> ((?o \<noteq> [] \<and> (\<exists>e. llm ?o = Inl e \<or> tool_outputs s = None)) \<or>
               workflow_history s = None \<or> messages s = None)"
  proof -
    from ok obtain h msgs where h: "workflow_history ?i = Some h" and m: "messages ?i = Some msgs"
      by (auto simp: personality_init_fields)
    show ?thesis
    proof (cases "?o = []")
      case True
      have t: "\<not> (([]::string) \<noteq> [] \<and> tool_outputs ?i = None)"
        by simp
      from True m show ?thesis
        by (simp add: personality_agent_def Let_def personality_init_fields
            personality_finish_returns [OF t h m])
    next
      case n: False
      with ok obtain r where r: "llm ?o = Inr r"
        by (cases "llm ?o") auto
      from ok have t: "\<not> (?o \<noteq> [] \<and> tool_outputs ?i = None)"
        by (auto simp: personality_init_fields)
      from n r m show ?thesis
        by (simp add: personality_agent_def Let_def personality_init_fields
            personality_finish_returns [OF t h m])
    qed
  qed
  have quiet: "fst (personality_agent llm now s) = [] \<and>
      response (fst (snd (personality_agent llm now s))) =
        (if workflow_history s = None then apology_prefix else []) \<and>
      pl_conversation_active (fst (snd (personality_agent llm now s))) =
        (workflow_history s = None \<or> get_default True (conversation_active s))"
    if a: "agent_outcome s = None \<and> messages s = Some []"
  proof -
    from a have o: "?o = []"
      by (simp add: original_of_def)
    then have sent: "fst (personality_agent llm now s) = []"
      by (simp add: personality_agent_def Let_def personality_init_fields)
    show ?thesis
    proof (cases "workflow_history s")
      case None
      then have "fst (snd (personality_agent llm now s)) = fallback_payload ?o"
        using fails by blast
      with None sent show ?thesis
        by (simp add: fallback_payload_def)
    next
      case (Some h)
      with a o have "\<not> ((?o \<noteq> [] \<and> (\<exists>e. llm ?o = Inl e \<or> tool_outputs s = None)) \<or>
               workflow_history s = None \<or> messages s = None)"
        by simp
      from returns [OF this] Some o sent show ?thesis
        by simp
    qed
  qed
  from fails returns quiet show ?thesis
    by blast
qed

text \<open>
  Claim C4 as stated fails: on the initial state of a turn, which has no outcome and an
  empty transcript, the response of the payload is empty.
\<close>

theorem formatter_empty_response_counterexample:
  "agent_outcome (initial_state ''hello'') = None \<and>
   messages (initial_state ''hello'') = Some [] \<and>
   response (fst (snd (personality_agent (\<lambda>t. Inr ''Happy to help!'')
      (\<lambda>k. ''2025-05-26 10:00:00'') (initial_state ''hello'')))) = []"
  by (simp add: personality_agent_def personality_finish_def personality_init_def original_of_def
      initial_state_def Let_def)

text \<open>The initial state, and the same state without \<open>workflow_history\<close>.\<close>

theorem formatter_payload_witness:
  "agent_outcome (initial_state ''hello'') = None \<and>
   messages (initial_state ''hello'') = Some [] \<and>
   workflow_history (initial_state ''hello'') \<noteq> None \<and>
   fst (personality_agent (\<lambda>t. Inr ''Happy to help!'') (\<lambda>k. ''2025-05-26 10:00:00'')
          (initial_state ''hello'')) = [] \<and>
   response (fst (snd (personality_agent (\<lambda>t. Inr ''Happy to help!'')
      (\<lambda>k. ''2025-05-26 10:00:00'') (initial_state ''hello'')))) = [] \<and>
   pl_conversation_active (fst (snd (personality_agent (\<lambda>t. Inr ''Happy to help!'')
      (\<lambda>k. ''2025-05-26 10:00:00'') (initial_state ''hello'')))) \<and>
   workflow_history ((initial_state ''hello'')\<lparr>workflow_history := None\<rparr>) = None \<and>
   fst (snd (personality_agent (\<lambda>t. Inr ''Happy to help!'') (\<lambda>k. ''2025-05-26 10:00:00'')
          ((initial_state ''hello'')\<lparr>workflow_history := None\<rparr>))) = fallback_payload []"
proof -
  have a: "agent_outcome (initial_state ''hello'') = None"
    "messages (initial_state ''hello'') = Some []"
    "workflow_history (initial_state ''hello'') = Some []"
    "conversation_active (initial_state ''hello'') = Some True"
    by (simp_all add: initial_state_def)
  have o: "original_of ((initial_state ''hello'')\<lparr>workflow_history := None\<rparr>) = []"
    by (simp add: original_of_def initial_state_def)
  show ?thesis
    using a o
      formatter_payload [of "initial_state ''hello''" "\<lambda>t. Inr ''Happy to help!''"
        "\<lambda>k. ''2025-05-26 10:00:00''"]
      formatter_payload [of "(initial_state ''hello'')\<lparr>workflow_history := None\<rparr>"
        "\<lambda>t. Inr ''Happy to help!''" "\<lambda>k. ''2025-05-26 10:00:00''"]
    by simp
qed

section \<open>The support worker\<close>








end
